theory Spec2Isabelle
  imports Complex_Main
begin

section \<open>JSON documents and paths\<close>

text \<open>
  The stack of \<^verbatim>\<open>main.ts\<close> declares a Step Functions state machine and an API
  Gateway method in front of it. Both are data: states with parameter mappings, a
  Choice with two rules, a request model and a response mapping template. The
  theory keeps these declarations as values, under the names the source gives
  them, and interprets them the way the two services do.

  A document is a JSON value. An object is an association list, looked up with
  \<open>map_of\<close> (the first binding of a key counts); a number is a rational, which
  covers the confidence scores of the language detector.
\<close>

datatype json =
    JNull
  | JBool bool
  | JNum rat
  | JStr string
  | JArr "json list"
  | JObj "(string \<times> json) list"

text \<open>
  A path such as \<^verbatim>\<open>$.result.Languages[0].LanguageCode\<close> is a list of segments;
  \<^verbatim>\<open>$\<close> is the empty list.
\<close>

datatype seg = Key string | Idx nat

type_synonym path = "seg list"

fun get_path :: "path \<Rightarrow> json \<Rightarrow> json option" where
  "get_path [] v = Some v"
| "get_path (Key k # p) (JObj kvs) =
     (case map_of kvs k of None \<Rightarrow> None | Some v \<Rightarrow> get_path p v)"
| "get_path (Idx i # p) (JArr xs) =
     (if i < length xs then get_path p (xs ! i) else None)"
| "get_path (s # p) v = None"

text \<open>Writing a field of an object: an existing binding is replaced in place, a new one appended.\<close>

fun set_field :: "string \<Rightarrow> json \<Rightarrow> (string \<times> json) list \<Rightarrow> (string \<times> json) list" where
  "set_field k v [] = [(k, v)]"
| "set_field k v ((k', v') # kvs) =
     (if k' = k then (k, v) # kvs else (k', v') # set_field k v kvs)"

section \<open>The request model\<close>

text \<open>
  \<^verbatim>\<open>requestModels(rest, 'txt')\<close> builds a draft-4 schema with \<^verbatim>\<open>type\<close>,
  \<^verbatim>\<open>properties\<close> and \<^verbatim>\<open>required\<close>; these three keywords are the ones interpreted.
\<close>

datatype JsonSchemaType = NULL | BOOLEAN | OBJECT | ARRAY | NUMBER | INTEGER | STRING

datatype JsonSchema =
  JsonSchema (schema_type: "JsonSchemaType option")
             (properties: "(string \<times> JsonSchema) list")
             (required: "string list")

fun has_type :: "JsonSchemaType \<Rightarrow> json \<Rightarrow> bool" where
  "has_type NULL v = (v = JNull)"
| "has_type BOOLEAN v = (case v of JBool b \<Rightarrow> True | _ \<Rightarrow> False)"
| "has_type OBJECT v = (case v of JObj kvs \<Rightarrow> True | _ \<Rightarrow> False)"
| "has_type ARRAY v = (case v of JArr xs \<Rightarrow> True | _ \<Rightarrow> False)"
| "has_type NUMBER v = (case v of JNum r \<Rightarrow> True | _ \<Rightarrow> False)"
| "has_type INTEGER v = (case v of JNum r \<Rightarrow> r = of_int \<lfloor>r\<rfloor> | _ \<Rightarrow> False)"
| "has_type STRING v = (case v of JStr s \<Rightarrow> True | _ \<Rightarrow> False)"

fun validates :: "JsonSchema \<Rightarrow> json \<Rightarrow> bool" where
  "validates (JsonSchema ty props req) v =
     ((case ty of None \<Rightarrow> True | Some t \<Rightarrow> has_type t v) \<and>
      (case v of
         JObj kvs \<Rightarrow>
           list_all (\<lambda>k. map_of kvs k \<noteq> None) req \<and>
           list_all (\<lambda>p. case map_of kvs (fst p) of
                            None \<Rightarrow> True
                          | Some x \<Rightarrow> validates (snd p) x) props
       | _ \<Rightarrow> True))"

definition requestModels :: "string \<Rightarrow> JsonSchema" where
  "requestModels postRequest =
     JsonSchema (Some OBJECT)
                [(postRequest, JsonSchema (Some STRING) [] [])]
                [postRequest]"

section \<open>The gateway method and its integration\<close>

text \<open>
  The method options of \<^verbatim>\<open>POST /sentiment\<close> (the constant \<^verbatim>\<open>method\<close> of the
  source, a reserved word here): the declared method responses, the
  request model of the content type \<^verbatim>\<open>application/json\<close> and the request validator.
\<close>

record RequestValidator =
  validateRequestBody :: bool
  validateRequestParameters :: bool

record MethodOptions =
  methodResponses :: "nat list"
  requestModel :: "(string \<times> JsonSchema) list"
  requestValidator :: RequestValidator

definition methodOptions :: MethodOptions where
  "methodOptions =
     \<lparr> methodResponses = [200],
       requestModel = [(''application/json'', requestModels ''txt'')],
       requestValidator =
         \<lparr> validateRequestBody = True, validateRequestParameters = False \<rparr> \<rparr>"

text \<open>
  The reply of StartExecution, as the response template sees it: the top-level
  fields of the reply, each value as the text that the template engine prints for
  it. \<^verbatim>\<open>$input.path\<close> of a field the reply does not have prints the empty string.
  The template writes text; the model keeps the fields it prints as a JSON object
  of strings and leaves the quoting of the printed text out.
\<close>

type_synonym reply = "(string \<times> string) list"

record request_context =
  requestId :: string

datatype vtl_ref =
    ContextRequestId
  | InputPath string
  | Trim vtl_ref

text \<open>\<^verbatim>\<open>trim()\<close> drops the characters up to the space (code 32) at both ends.\<close>

definition is_blank :: "char \<Rightarrow> bool" where
  "is_blank c = ((of_char c :: nat) \<le> 32)"

definition trim :: "string \<Rightarrow> string" where
  "trim s = rev (dropWhile is_blank (rev (dropWhile is_blank s)))"

fun eval_ref :: "request_context \<Rightarrow> reply \<Rightarrow> vtl_ref \<Rightarrow> string" where
  "eval_ref ctx r ContextRequestId = requestId ctx"
| "eval_ref ctx r (InputPath k) = (case map_of r k of None \<Rightarrow> [] | Some v \<Rightarrow> v)"
| "eval_ref ctx r (Trim e) = trim (eval_ref ctx r e)"

text \<open>
  One branch of the template: the \<^verbatim>\<open>#set ($context.responseOverride.status = ...)\<close>
  it runs, if any, and the fields of the object it prints. The template itself is
  \<^verbatim>\<open>#if (ref != "text") ... #else ... #end\<close>.
\<close>

record vtl_branch =
  responseOverride_status :: "nat option"
  body_fields :: "(string \<times> vtl_ref) list"

datatype vtl_template = IfNotEqual vtl_ref string vtl_branch vtl_branch

fun then_branch :: "vtl_template \<Rightarrow> vtl_branch" where
  "then_branch (IfNotEqual e s b1 b2) = b1"

fun else_branch :: "vtl_template \<Rightarrow> vtl_branch" where
  "else_branch (IfNotEqual e s b1 b2) = b2"

fun condition_holds :: "request_context \<Rightarrow> reply \<Rightarrow> vtl_template \<Rightarrow> bool" where
  "condition_holds ctx r (IfNotEqual e s b1 b2) = (eval_ref ctx r e \<noteq> s)"

definition selected_branch :: "request_context \<Rightarrow> reply \<Rightarrow> vtl_template \<Rightarrow> vtl_branch" where
  "selected_branch ctx r t =
     (if condition_holds ctx r t then then_branch t else else_branch t)"

definition render_body :: "request_context \<Rightarrow> reply \<Rightarrow> vtl_branch \<Rightarrow> json" where
  "render_body ctx r b = JObj (map (\<lambda>f. (fst f, JStr (eval_ref ctx r (snd f)))) (body_fields b))"

record IntegrationResponse =
  statusCode :: nat
  selectionPattern :: "string option"
  responseTemplate :: vtl_template

record StartExecutionInput =
  input :: json
  stateMachineArn :: string

record Integration =
  service :: string
  action :: string
  integrationResponses :: "IntegrationResponse list"
  requestTemplate :: "json \<Rightarrow> StartExecutionInput"

text \<open>
  \<^verbatim>\<open>postIntegration(gtwRole, sf)\<close>: one integration response, declared for status
  200 with no selection pattern, so it is the one applied to every reply of the
  backend. Its template is the source's, branch by branch. The request template
  hands the request body over as the execution input (the source sends it as
  escaped text).
\<close>

definition postResponseTemplate :: vtl_template where
  "postResponseTemplate =
     IfNotEqual (InputPath ''__type'') []
       \<lparr> responseOverride_status = Some 500,
         body_fields = [(''requestId'', ContextRequestId),
                   (''message'', Trim (InputPath ''message''))] \<rparr>
       \<lparr> responseOverride_status = Some 500,
         body_fields = [(''requestId'', ContextRequestId),
                   (''executionArn'', Trim (InputPath ''executionArn'')),
                   (''startDate'', InputPath ''startDate'')] \<rparr>"

definition postIntegration :: "string \<Rightarrow> Integration" where
  "postIntegration sfArn =
     \<lparr> service = ''states'',
       action = ''StartExecution'',
       integrationResponses =
         [\<lparr> statusCode = 200, selectionPattern = None,
            responseTemplate = postResponseTemplate \<rparr>],
       requestTemplate = (\<lambda>b. \<lparr> input = b, stateMachineArn = sfArn \<rparr>) \<rparr>"

record http_response =
  status :: nat
  body :: json

text \<open>
  The response mapper: the selected branch gives the body, and its status
  override, when it sets one, replaces the status code of the integration response.
\<close>

definition map_response :: "IntegrationResponse \<Rightarrow> request_context \<Rightarrow> reply \<Rightarrow> http_response" where
  "map_response ir ctx r =
     (let b = selected_branch ctx r (responseTemplate ir)
      in \<lparr> status = (case responseOverride_status b of
                        None \<Rightarrow> statusCode ir
                      | Some st \<Rightarrow> st),
            body = render_body ctx r b \<rparr>)"

text \<open>
  A request to the method. With \<open>validateRequestBody\<close> set, a body that does not
  validate against the model of its content type is answered by the gateway itself
  (\<open>Rejected\<close>, with the gateway's message) and the integration is not called.
  Otherwise the backend is called through the request template and its reply is
  mapped by the default integration response. The backend is a parameter: it takes
  the StartExecution input and the state of the engine, and returns its reply and
  the new state. Requests are of content type \<^verbatim>\<open>application/json\<close>, the only one
  the method declares.
\<close>

datatype gateway_result = Rejected string | Responded http_response

definition body_accepted :: "MethodOptions \<Rightarrow> json \<Rightarrow> bool" where
  "body_accepted m b =
     (if validateRequestBody (requestValidator m)
      then (case map_of (requestModel m) ''application/json'' of
              None \<Rightarrow> True
            | Some schema \<Rightarrow> validates schema b)
      else True)"

definition handle_post ::
  "MethodOptions \<Rightarrow> Integration \<Rightarrow> (StartExecutionInput \<Rightarrow> 'e \<Rightarrow> reply \<times> 'e) \<Rightarrow>
   request_context \<Rightarrow> json \<Rightarrow> 'e \<Rightarrow> gateway_result \<times> 'e" where
  "handle_post m i backend ctx b e =
     (if body_accepted m b then
        (case find (\<lambda>ir. selectionPattern ir = None) (integrationResponses i) of
           None \<Rightarrow> (Rejected ''Internal server error'', e)
         | Some ir \<Rightarrow>
             (case backend (requestTemplate i b) e of
                (r, e') \<Rightarrow> (Responded (map_response ir ctx r), e')))
      else (Rejected ''Invalid request body'', e))"

section \<open>The workflow: states as declared\<close>

text \<open>
  A parameter of a state is either read from the input document at a path
  (\<^verbatim>\<open>JsonPath.stringAt('$.txt')\<close>, or a key ending in \<^verbatim>\<open>.$\<close>) or a constant
  (\<^verbatim>\<open>TargetLanguageCode: 'pt'\<close>).
\<close>

datatype param = At path | Lit json

datatype Condition = StringEquals path string | NotCond Condition

record CallAwsServiceProps =
  task_service :: string
  task_action :: string
  parameters :: "(string \<times> param) list"
  resultPath :: "path option"
  outputPath :: "path option"

text \<open>
  The three kinds of state the stack uses. The last argument of a task or a Pass is
  its successor (\<open>None\<close> for a state that ends the execution); a Choice holds its
  rules in the order of the \<^verbatim>\<open>when\<close> calls, and its default.
\<close>

datatype State =
    CallAwsService CallAwsServiceProps "string option"
  | Pass "(string \<times> param) list" "string option"
  | Choice "(Condition \<times> string) list" "string option"

definition detectLanguage :: State where
  "detectLanguage =
     CallAwsService
       \<lparr> task_service = ''comprehend'',
         task_action = ''detectDominantLanguage'',
         parameters = [(''Text'', At [Key ''txt''])],
         resultPath = Some [Key ''result''],
         outputPath = Some [] \<rparr> None"

definition formatResult :: State where
  "formatResult =
     Pass [(''Text'', At [Key ''txt'']),
           (''Language'', At [Key ''result'', Key ''Languages'', Idx 0, Key ''LanguageCode''])]
          None"

definition translateNonPTLanguage :: State where
  "translateNonPTLanguage = Choice [] None"

definition detectSentiment :: State where
  "detectSentiment =
     CallAwsService
       \<lparr> task_service = ''comprehend'',
         task_action = ''detectSentiment'',
         parameters = [(''Text'', At [Key ''Text'']),
                       (''LanguageCode'', At [Key ''Language''])],
         resultPath = None,
         outputPath = None \<rparr> None"

definition translateText :: State where
  "translateText =
     CallAwsService
       \<lparr> task_service = ''translate'',
         task_action = ''translateText'',
         parameters = [(''Text'', At [Key ''Text'']),
                       (''SourceLanguageCode'', At [Key ''Language'']),
                       (''TargetLanguageCode'', Lit (JStr ''pt''))],
         resultPath = Some [Key ''result''],
         outputPath = Some [] \<rparr> None"

definition formatTranslatedResult :: State where
  "formatTranslatedResult =
     Pass [(''Text'', At [Key ''result'', Key ''TranslatedText'']),
           (''Language'', At [Key ''result'', Key ''TargetLanguageCode''])]
          None"

text \<open>
  The states are objects that \<^verbatim>\<open>next\<close> and \<^verbatim>\<open>when\<close> update after their
  construction, so they live in a store keyed by their construct ids.
  \<open>next_to a b\<close> is \<^verbatim>\<open>a.next(b)\<close>; a Choice has no \<^verbatim>\<open>next\<close>.
  \<open>when_to c cond b\<close> is \<^verbatim>\<open>c.when(cond, b)\<close>, which appends a rule.
\<close>

type_synonym states = "(string \<times> State) list"

fun set_next :: "string \<Rightarrow> State \<Rightarrow> State" where
  "set_next b (CallAwsService props nx) = CallAwsService props (Some b)"
| "set_next b (Pass ps nx) = Pass ps (Some b)"
| "set_next b (Choice rules dflt) = Choice rules dflt"

fun add_rule :: "Condition \<Rightarrow> string \<Rightarrow> State \<Rightarrow> State" where
  "add_rule cond b (Choice rules dflt) = Choice (rules @ [(cond, b)]) dflt"
| "add_rule cond b s = s"

fun update_state :: "string \<Rightarrow> (State \<Rightarrow> State) \<Rightarrow> states \<Rightarrow> states" where
  "update_state a f [] = []"
| "update_state a f ((n, s) # sts) =
     (if n = a then (n, f s) # sts else (n, s) # update_state a f sts)"

definition next_to :: "string \<Rightarrow> string \<Rightarrow> states \<Rightarrow> states" where
  "next_to a b sts = update_state a (set_next b) sts"

definition when_to :: "string \<Rightarrow> Condition \<Rightarrow> string \<Rightarrow> states \<Rightarrow> states" where
  "when_to c cond b sts = update_state c (add_rule cond b) sts"

definition constructed :: states where
  "constructed =
     [(''DetectDominantLanguage'', detectLanguage),
      (''FormatResult'', formatResult),
      (''TranslateNonPTLanguage'', translateNonPTLanguage),
      (''DetectSentiment'', detectSentiment),
      (''TranslateText'', translateText),
      (''FormatTranslatedResult'', formatTranslatedResult)]"

text \<open>The wiring of the constructor, call by call in the source's order.\<close>

definition wired :: states where
  "wired =
     (next_to ''FormatResult'' ''TranslateNonPTLanguage''
       (next_to ''DetectDominantLanguage'' ''FormatResult''
         (when_to ''TranslateNonPTLanguage''
            (NotCond (StringEquals [Key ''Language''] ''pt'')) ''TranslateText''
           (when_to ''TranslateNonPTLanguage''
              (StringEquals [Key ''Language''] ''pt'') ''DetectSentiment''
             (next_to ''FormatTranslatedResult'' ''DetectSentiment''
               (next_to ''TranslateText'' ''FormatTranslatedResult'' constructed))))))"

record StateMachine =
  startAt :: string
  states_of :: states

definition stateMachine :: StateMachine where
  "stateMachine = \<lparr> startAt = ''DetectDominantLanguage'', states_of = wired \<rparr>"

section \<open>The workflow: how the engine runs a state\<close>

text \<open>
  Modelled from the spec: the workflow engine (section 4.1) belongs to the Step
  Functions service and has no code in the repository. A task builds its request
  from the input document by its parameters, calls the capability, writes the
  response into the input document at the result path (or takes the response as
  the whole document when there is none) and hands on what the output path selects.
  A Pass hands on the object its parameters build. A Choice hands the document on
  unchanged to the target of the first rule that holds, in declared order; with no
  rule holding and no default the execution fails. A path that selects nothing fails
  the state. The capabilities are a parameter: service, action and request give a
  response, or a failure with its cause, which fails the task.
\<close>

datatype error =
    ParameterPathFailure
  | ResultPathMatchFailure
  | OutputPathFailure
  | InvalidChoicePath
  | NoChoiceMatched
  | TaskFailed string
  | UnknownState string
  | OutOfFuel

type_synonym capabilities = "string \<Rightarrow> string \<Rightarrow> json \<Rightarrow> string + json"

fun eval_parameters :: "(string \<times> param) list \<Rightarrow> json \<Rightarrow> error + (string \<times> json) list" where
  "eval_parameters [] d = Inr []"
| "eval_parameters ((k, At p) # ps) d =
     (case get_path p d of
        None \<Rightarrow> Inl ParameterPathFailure
      | Some v \<Rightarrow>
          (case eval_parameters ps d of
             Inl e \<Rightarrow> Inl e
           | Inr kvs \<Rightarrow> Inr ((k, v) # kvs)))"
| "eval_parameters ((k, Lit v) # ps) d =
     (case eval_parameters ps d of
        Inl e \<Rightarrow> Inl e
      | Inr kvs \<Rightarrow> Inr ((k, v) # kvs))"

fun put_path :: "path \<Rightarrow> json \<Rightarrow> json \<Rightarrow> error + json" where
  "put_path [] r d = Inr r"
| "put_path (Key k # p) r (JObj kvs) =
     (case put_path p r (case map_of kvs k of None \<Rightarrow> JObj [] | Some c \<Rightarrow> c) of
        Inl e \<Rightarrow> Inl e
      | Inr v \<Rightarrow> Inr (JObj (set_field k v kvs)))"
| "put_path (s # p) r d = Inl ResultPathMatchFailure"

fun eval_condition :: "Condition \<Rightarrow> json \<Rightarrow> error + bool" where
  "eval_condition (StringEquals p s) d =
     (case get_path p d of
        None \<Rightarrow> Inl InvalidChoicePath
      | Some (JStr v) \<Rightarrow> Inr (v = s)
      | Some _ \<Rightarrow> Inr False)"
| "eval_condition (NotCond c) d =
     (case eval_condition c d of
        Inl e \<Rightarrow> Inl e
      | Inr b \<Rightarrow> Inr (\<not> b))"

fun choose_rule :: "(Condition \<times> string) list \<Rightarrow> string option \<Rightarrow> json \<Rightarrow> error + string" where
  "choose_rule [] dflt d = (case dflt of None \<Rightarrow> Inl NoChoiceMatched | Some n \<Rightarrow> Inr n)"
| "choose_rule ((c, n) # rules) dflt d =
     (case eval_condition c d of
        Inl e \<Rightarrow> Inl e
      | Inr b \<Rightarrow> if b then Inr n else choose_rule rules dflt d)"

fun run_state :: "capabilities \<Rightarrow> State \<Rightarrow> json \<Rightarrow> error + json \<times> string option" where
  "run_state caps (CallAwsService props nx) d =
     (case eval_parameters (parameters props) d of
        Inl e \<Rightarrow> Inl e
      | Inr req \<Rightarrow>
          (case caps (task_service props) (task_action props) (JObj req) of
             Inl cause \<Rightarrow> Inl (TaskFailed cause)
           | Inr resp \<Rightarrow>
               (case (case resultPath props of
                        None \<Rightarrow> Inr resp
                      | Some p \<Rightarrow> put_path p resp d) of
                  Inl e \<Rightarrow> Inl e
                | Inr merged \<Rightarrow>
                    (case outputPath props of
                       None \<Rightarrow> Inr (merged, nx)
                     | Some p \<Rightarrow>
                         (case get_path p merged of
                            None \<Rightarrow> Inl OutputPathFailure
                          | Some out \<Rightarrow> Inr (out, nx))))))"
| "run_state caps (Pass ps nx) d =
     (case eval_parameters ps d of
        Inl e \<Rightarrow> Inl e
      | Inr kvs \<Rightarrow> Inr (JObj kvs, nx))"
| "run_state caps (Choice rules dflt) d =
     (case choose_rule rules dflt d of
        Inl e \<Rightarrow> Inl e
      | Inr n \<Rightarrow> Inr (d, Some n))"

text \<open>
  An execution from a state: the states entered, each with the document it was
  entered with, and the outcome. The count bounds the number of states entered;
  the machine of the stack enters at most six.
\<close>

fun execute ::
  "nat \<Rightarrow> capabilities \<Rightarrow> states \<Rightarrow> string \<Rightarrow> json \<Rightarrow> (string \<times> json) list \<times> (error + json)" where
  "execute 0 caps sts n d = ([], Inl OutOfFuel)"
| "execute (Suc k) caps sts n d =
     (case map_of sts n of
        None \<Rightarrow> ([], Inl (UnknownState n))
      | Some s \<Rightarrow>
          (case run_state caps s d of
             Inl e \<Rightarrow> ([(n, d)], Inl e)
           | Inr (d', None) \<Rightarrow> ([(n, d)], Inr d')
           | Inr (d', Some n') \<Rightarrow>
               (case execute k caps sts n' d' of
                  (tr, res) \<Rightarrow> ((n, d) # tr, res))))"

definition start_execution :: "nat \<Rightarrow> capabilities \<Rightarrow> StateMachine \<Rightarrow> json \<Rightarrow> (string \<times> json) list \<times> (error + json)" where
  "start_execution k caps m d = execute k caps (states_of m) (startAt m) d"

text \<open>The successors of a state in the graph, and the runs of the graph from a state to an end.\<close>

fun successors :: "State \<Rightarrow> string list" where
  "successors (CallAwsService props nx) = (case nx of None \<Rightarrow> [] | Some b \<Rightarrow> [b])"
| "successors (Pass ps nx) = (case nx of None \<Rightarrow> [] | Some b \<Rightarrow> [b])"
| "successors (Choice rules dflt) =
     map snd rules @ (case dflt of None \<Rightarrow> [] | Some b \<Rightarrow> [b])"

inductive graph_path :: "states \<Rightarrow> string \<Rightarrow> string list \<Rightarrow> bool" where
  path_end: "map_of sts n = Some s \<Longrightarrow> successors s = [] \<Longrightarrow> graph_path sts n [n]"
| path_step: "map_of sts n = Some s \<Longrightarrow> n' \<in> set (successors s) \<Longrightarrow> graph_path sts n' p \<Longrightarrow>
              graph_path sts n (n # p)"

definition terminal_states :: "states \<Rightarrow> string list" where
  "terminal_states sts = map fst (filter (\<lambda>ns. successors (snd ns) = []) sts)"

text \<open>A Pass applied to a document once, and again to its own result.\<close>

definition pass_once :: "State \<Rightarrow> json \<Rightarrow> error + json" where
  "pass_once s d =
     (case run_state (\<lambda>sv a req. Inl []) s d of
        Inl e \<Rightarrow> Inl e
      | Inr (d', nx) \<Rightarrow> Inr d')"

definition pass_twice :: "State \<Rightarrow> json \<Rightarrow> error + json" where
  "pass_twice s d =
     (case pass_once s d of
        Inl e \<Rightarrow> Inl e
      | Inr d' \<Rightarrow> pass_once s d')"

text \<open>
  Modelled from the spec: the reply of the language-identification capability
  (section 6), a list of codes with their scores, in the shape the Projection reads
  it: an object with the list under \<open>Languages\<close>, each entry with its
  \<open>LanguageCode\<close> and \<open>Score\<close>.
\<close>

definition language_entry :: "string \<times> rat \<Rightarrow> json" where
  "language_entry l = JObj [(''LanguageCode'', JStr (fst l)), (''Score'', JNum (snd l))]"

definition languages_reply :: "(string \<times> rat) list \<Rightarrow> json" where
  "languages_reply ls = JObj [(''Languages'', JArr (map language_entry ls))]"

text \<open>
  Modelled from the spec: the contract of the translation capability (section 6,
  \<^verbatim>\<open>Translate(text, sourceLang, targetLang)\<close> gives the translated text and
  \<^verbatim>\<open>targetLang\<close>): a reply that names a target language names the one requested.
\<close>

definition translate_contract :: "capabilities \<Rightarrow> bool" where
  "translate_contract caps =
     (\<forall>req resp v. caps ''translate'' ''translateText'' req = Inr resp \<longrightarrow>
        get_path [Key ''TargetLanguageCode''] resp = Some v \<longrightarrow>
        get_path [Key ''TargetLanguageCode''] req = Some v)"

text \<open>
  A sample of the three capabilities, to run the workflow on the texts of the
  spec's scenarios A and B: the detector finds Portuguese in \<open>Eu amo isso\<close> and
  English in any other text, and the translator answers in the language requested.
\<close>

definition sample_capabilities :: capabilities where
  "sample_capabilities sv a req =
     (if sv = ''comprehend'' \<and> a = ''detectDominantLanguage'' then
        (if get_path [Key ''Text''] req = Some (JStr ''Eu amo isso'')
         then Inr (languages_reply [(''pt'', 98 / 100), (''es'', 1 / 100)])
         else Inr (languages_reply [(''en'', 99 / 100), (''pt'', 1 / 200)]))
      else if sv = ''translate'' \<and> a = ''translateText'' then
        (case get_path [Key ''TargetLanguageCode''] req of
           None \<Rightarrow> Inl ''no target language''
         | Some target \<Rightarrow>
             Inr (JObj [(''TranslatedText'', JStr ''Eu amo isso''),
                        (''TargetLanguageCode'', target)]))
      else if sv = ''comprehend'' \<and> a = ''detectSentiment'' then
        Inr (JObj [(''Sentiment'', JStr ''POSITIVE'')])
      else Inl ''unknown action'')"

text \<open>
  The same capabilities with a translator that breaks the contract: it names
  \<open>en\<close> as the target language whatever was requested.
\<close>

definition stray_capabilities :: capabilities where
  "stray_capabilities sv a req =
     (if sv = ''translate'' \<and> a = ''translateText''
      then Inr (JObj [(''TranslatedText'', JStr ''I love this''),
                      (''TargetLanguageCode'', JStr ''en'')])
      else sample_capabilities sv a req)"

section \<open>The gateway: validation and response mapping\<close>

lemma default_integration_response:
  "find (\<lambda>ir. selectionPattern ir = None) (integrationResponses (postIntegration sfArn)) =
     Some \<lparr> statusCode = 200, selectionPattern = None, responseTemplate = postResponseTemplate \<rparr>"
  by (simp add: postIntegration_def)

text \<open>The bodies the request model accepts are the objects with a string under \<open>txt\<close>.\<close>

lemma body_accepted_method:
  "body_accepted methodOptions b \<longleftrightarrow> (\<exists>kvs s. b = JObj kvs \<and> map_of kvs ''txt'' = Some (JStr s))"
proof (cases b)
  case (JObj kvs)
  show ?thesis
  proof (cases "map_of kvs ''txt''")
    case None
    with JObj show ?thesis by (simp add: body_accepted_def methodOptions_def requestModels_def)
  next
    case (Some x)
    with JObj show ?thesis
      by (cases x) (simp_all add: body_accepted_def methodOptions_def requestModels_def)
  qed
qed (simp_all add: body_accepted_def methodOptions_def requestModels_def)

lemma error_condition:
  "condition_holds ctx r postResponseTemplate \<longleftrightarrow> (\<exists>v. map_of r ''__type'' = Some v \<and> v \<noteq> [])"
  by (simp add: postResponseTemplate_def split: option.split)

text \<open>
  Claim C1. A request whose body validates and whose StartExecution call is accepted
  should be answered with status 200 and the body \<open>{requestId, executionArn, startDate}\<close>.
  The code does not: for the body \<open>{"txt": "Eu amo isso"}\<close> and a backend that accepts
  the start and replies with an execution ARN and a start date, the body of the
  response has the three fields, but its status is 500, since the success branch of
  the template overrides the declared status 200 with 500 as the error branch does.
\<close>

theorem accepted_start_answers_500:
  "handle_post methodOptions (postIntegration ''arn:aws:states:sa-east-1:0:stateMachine:SentimentAnalisys'')
     (\<lambda>i n. ([(''executionArn'', ''arn:aws:states:sa-east-1:0:execution:SentimentAnalisys:e1''),
                 (''startDate'', ''1.667458800E9'')], Suc n))
     \<lparr> requestId = ''r-1'' \<rparr> (JObj [(''txt'', JStr ''Eu amo isso'')]) (0::nat) =
   (Responded \<lparr> status = 500,
        body = JObj [(''requestId'', JStr ''r-1''),
                     (''executionArn'', JStr ''arn:aws:states:sa-east-1:0:execution:SentimentAnalisys:e1''),
                     (''startDate'', JStr ''1.667458800E9'')] \<rparr>, 1)"
  by (simp add: handle_post_def body_accepted_method default_integration_response
        map_response_def selected_branch_def render_body_def postResponseTemplate_def
        postIntegration_def trim_def is_blank_def)

text \<open>
  Claim C2. In the response template the success branch and the error branch set the
  same status override: both assign 500, so every reply of the backend is answered
  with status 500.
\<close>

theorem both_branches_same_status_override:
  "responseOverride_status (then_branch postResponseTemplate) =
     responseOverride_status (else_branch postResponseTemplate) \<and>
   responseOverride_status (else_branch postResponseTemplate) = Some 500 \<and>
   (\<forall>ctx r. status (map_response
        \<lparr> statusCode = 200, selectionPattern = None, responseTemplate = postResponseTemplate \<rparr>
        ctx r) = 500)"
  by (simp add: postResponseTemplate_def map_response_def selected_branch_def)

text \<open>
  Claim C7. A request body that is not an object with a string under \<open>txt\<close> (the empty
  object for one) is rejected by the gateway with a message, whatever the backend is:
  the backend is not called and the state of the engine is the one before the request.
\<close>

theorem invalid_body_rejected_before_start:
  assumes "\<not> (\<exists>kvs s. b = JObj kvs \<and> map_of kvs ''txt'' = Some (JStr s))"
  shows "handle_post methodOptions (postIntegration sfArn) backend ctx b e =
           (Rejected ''Invalid request body'', e)"
proof -
  from assms have "\<not> body_accepted methodOptions b"
    by (simp only: body_accepted_method not_False_eq_True)
  then show ?thesis
    by (simp add: handle_post_def)
qed

theorem invalid_body_rejected_before_start_witness:
  "handle_post methodOptions (postIntegration ''arn:aws:states:sa-east-1:0:stateMachine:SentimentAnalisys'')
     (\<lambda>i n. ([(''executionArn'', ''x'')], Suc n)) \<lparr> requestId = ''r-1'' \<rparr> (JObj []) (0::nat) =
   (Rejected ''Invalid request body'', 0)"
  using invalid_body_rejected_before_start [of "JObj []"
      "''arn:aws:states:sa-east-1:0:stateMachine:SentimentAnalisys''"
      "\<lambda>i n. ([(''executionArn'', ''x'')], Suc n)" "\<lparr> requestId = ''r-1'' \<rparr>" "0::nat"]
  by simp

text \<open>
  Claim C9. The response mapper takes the error branch exactly when the reply has a
  field \<open>__type\<close> whose value is not empty. Then the body is \<open>{requestId, message}\<close>, with
  the trimmed \<open>message\<close> of the reply; in every other case it is
  \<open>{requestId, executionArn, startDate}\<close>, with the trimmed \<open>executionArn\<close> and the
  \<open>startDate\<close> of the reply. A field the reply does not have is printed empty.
\<close>

theorem response_mapper_classification:
  assumes "find (\<lambda>ir. selectionPattern ir = None) (integrationResponses (postIntegration sfArn)) = Some ir"
  shows "(condition_holds ctx r (responseTemplate ir) \<longleftrightarrow>
            (\<exists>v. map_of r ''__type'' = Some v \<and> v \<noteq> [])) \<and>
         body (map_response ir ctx r) =
           (if \<exists>v. map_of r ''__type'' = Some v \<and> v \<noteq> []
            then JObj [(''requestId'', JStr (requestId ctx)),
                       (''message'',
                        JStr (trim (case map_of r ''message'' of None \<Rightarrow> [] | Some m \<Rightarrow> m)))]
            else JObj [(''requestId'', JStr (requestId ctx)),
                       (''executionArn'',
                        JStr (trim (case map_of r ''executionArn'' of None \<Rightarrow> [] | Some a \<Rightarrow> a))),
                       (''startDate'',
                        JStr (case map_of r ''startDate'' of None \<Rightarrow> [] | Some t \<Rightarrow> t))])"
proof -
  from assms have ir: "ir = \<lparr> statusCode = 200, selectionPattern = None,
                               responseTemplate = postResponseTemplate \<rparr>"
    by (simp add: default_integration_response)
  have c: "condition_holds ctx r postResponseTemplate \<longleftrightarrow>
             (\<exists>v. map_of r ''__type'' = Some v \<and> v \<noteq> [])"
    by (rule error_condition)
  show ?thesis
    unfolding ir
    by (simp add: map_response_def selected_branch_def c render_body_def)
       (simp add: postResponseTemplate_def)
qed

theorem response_mapper_classification_witness:
  "body (map_response
      \<lparr> statusCode = 200, selectionPattern = None, responseTemplate = postResponseTemplate \<rparr>
      \<lparr> requestId = ''r-1'' \<rparr>
      [(''__type'', ''ExecutionLimitExceeded''), (''message'', '' too many '')]) =
    JObj [(''requestId'', JStr ''r-1''), (''message'', JStr ''too many'')] \<and>
   body (map_response
      \<lparr> statusCode = 200, selectionPattern = None, responseTemplate = postResponseTemplate \<rparr>
      \<lparr> requestId = ''r-1'' \<rparr>
      [(''executionArn'', ''arn:e1''), (''startDate'', ''1.6E9'')]) =
    JObj [(''requestId'', JStr ''r-1''), (''executionArn'', JStr ''arn:e1''),
          (''startDate'', JStr ''1.6E9'')]"
  using response_mapper_classification [OF default_integration_response [of "''a''"],
          of "\<lparr> requestId = ''r-1'' \<rparr>"
             "[(''__type'', ''ExecutionLimitExceeded''), (''message'', '' too many '')]"]
        response_mapper_classification [OF default_integration_response [of "''a''"],
          of "\<lparr> requestId = ''r-1'' \<rparr>"
             "[(''executionArn'', ''arn:e1''), (''startDate'', ''1.6E9'')]"]
  by (simp add: trim_def is_blank_def)

section \<open>The workflow graph\<close>

text \<open>The store after the wiring calls, state by state.\<close>

lemma wired_eq:
  "wired =
     [(''DetectDominantLanguage'', set_next ''FormatResult'' detectLanguage),
      (''FormatResult'', set_next ''TranslateNonPTLanguage'' formatResult),
      (''TranslateNonPTLanguage'',
         add_rule (NotCond (StringEquals [Key ''Language''] ''pt'')) ''TranslateText''
           (add_rule (StringEquals [Key ''Language''] ''pt'') ''DetectSentiment''
              translateNonPTLanguage)),
      (''DetectSentiment'', detectSentiment),
      (''TranslateText'', set_next ''FormatTranslatedResult'' translateText),
      (''FormatTranslatedResult'', set_next ''DetectSentiment'' formatTranslatedResult)]"
  by (simp add: wired_def constructed_def next_to_def when_to_def)

lemma wired_DetectDominantLanguage:
  "map_of wired ''DetectDominantLanguage'' =
     Some (CallAwsService
       \<lparr> task_service = ''comprehend'', task_action = ''detectDominantLanguage'',
         parameters = [(''Text'', At [Key ''txt''])],
         resultPath = Some [Key ''result''], outputPath = Some [] \<rparr> (Some ''FormatResult''))"
  by (simp add: wired_eq detectLanguage_def)

lemma wired_FormatResult:
  "map_of wired ''FormatResult'' =
     Some (Pass [(''Text'', At [Key ''txt'']),
                 (''Language'', At [Key ''result'', Key ''Languages'', Idx 0, Key ''LanguageCode''])]
                (Some ''TranslateNonPTLanguage''))"
  by (simp add: wired_eq formatResult_def)

lemma wired_TranslateNonPTLanguage:
  "map_of wired ''TranslateNonPTLanguage'' =
     Some (Choice [(StringEquals [Key ''Language''] ''pt'', ''DetectSentiment''),
                   (NotCond (StringEquals [Key ''Language''] ''pt''), ''TranslateText'')] None)"
  by (simp add: wired_eq translateNonPTLanguage_def)

lemma wired_DetectSentiment:
  "map_of wired ''DetectSentiment'' =
     Some (CallAwsService
       \<lparr> task_service = ''comprehend'', task_action = ''detectSentiment'',
         parameters = [(''Text'', At [Key ''Text'']), (''LanguageCode'', At [Key ''Language''])],
         resultPath = None, outputPath = None \<rparr> None)"
  by (simp add: wired_eq detectSentiment_def)

lemma wired_TranslateText:
  "map_of wired ''TranslateText'' =
     Some (CallAwsService
       \<lparr> task_service = ''translate'', task_action = ''translateText'',
         parameters = [(''Text'', At [Key ''Text'']),
                       (''SourceLanguageCode'', At [Key ''Language'']),
                       (''TargetLanguageCode'', Lit (JStr ''pt''))],
         resultPath = Some [Key ''result''], outputPath = Some [] \<rparr>
       (Some ''FormatTranslatedResult''))"
  by (simp add: wired_eq translateText_def)

lemma wired_FormatTranslatedResult:
  "map_of wired ''FormatTranslatedResult'' =
     Some (Pass [(''Text'', At [Key ''result'', Key ''TranslatedText'']),
                 (''Language'', At [Key ''result'', Key ''TargetLanguageCode''])]
                (Some ''DetectSentiment''))"
  by (simp add: wired_eq formatTranslatedResult_def)

lemmas wired_lookup = wired_DetectDominantLanguage wired_FormatResult wired_TranslateNonPTLanguage
  wired_DetectSentiment wired_TranslateText wired_FormatTranslatedResult

lemma path_DetectSentiment:
  "graph_path wired ''DetectSentiment'' p \<longleftrightarrow> p = [''DetectSentiment'']"
  by (subst graph_path.simps) (auto simp: wired_lookup)

lemma path_FormatTranslatedResult:
  "graph_path wired ''FormatTranslatedResult'' p \<longleftrightarrow>
     p = [''FormatTranslatedResult'', ''DetectSentiment'']"
  by (subst graph_path.simps) (auto simp: wired_lookup path_DetectSentiment)

lemma path_TranslateText:
  "graph_path wired ''TranslateText'' p \<longleftrightarrow>
     p = [''TranslateText'', ''FormatTranslatedResult'', ''DetectSentiment'']"
  by (subst graph_path.simps) (auto simp: wired_lookup path_FormatTranslatedResult)

lemma path_TranslateNonPTLanguage:
  "graph_path wired ''TranslateNonPTLanguage'' p \<longleftrightarrow>
     p = [''TranslateNonPTLanguage'', ''DetectSentiment''] \<or>
     p = [''TranslateNonPTLanguage'', ''TranslateText'', ''FormatTranslatedResult'', ''DetectSentiment'']"
proof
  assume "graph_path wired ''TranslateNonPTLanguage'' p"
  then show "p = [''TranslateNonPTLanguage'', ''DetectSentiment''] \<or>
     p = [''TranslateNonPTLanguage'', ''TranslateText'', ''FormatTranslatedResult'', ''DetectSentiment'']"
    by (subst (asm) graph_path.simps)
       (auto simp: wired_lookup path_DetectSentiment path_TranslateText)
next
  have direct: "graph_path wired ''TranslateNonPTLanguage'' [''TranslateNonPTLanguage'', ''DetectSentiment'']"
    by (rule path_step [OF wired_TranslateNonPTLanguage, where n' = "''DetectSentiment''"])
       (simp_all add: path_DetectSentiment)
  have translated: "graph_path wired ''TranslateNonPTLanguage''
      [''TranslateNonPTLanguage'', ''TranslateText'', ''FormatTranslatedResult'', ''DetectSentiment'']"
    by (rule path_step [OF wired_TranslateNonPTLanguage, where n' = "''TranslateText''"])
       (simp_all add: path_TranslateText)
  assume "p = [''TranslateNonPTLanguage'', ''DetectSentiment''] \<or>
     p = [''TranslateNonPTLanguage'', ''TranslateText'', ''FormatTranslatedResult'', ''DetectSentiment'']"
  with direct translated show "graph_path wired ''TranslateNonPTLanguage'' p"
    by auto
qed

lemma path_FormatResult:
  "graph_path wired ''FormatResult'' p \<longleftrightarrow>
     p = [''FormatResult'', ''TranslateNonPTLanguage'', ''DetectSentiment''] \<or>
     p = [''FormatResult'', ''TranslateNonPTLanguage'', ''TranslateText'',
          ''FormatTranslatedResult'', ''DetectSentiment'']"
  by (subst graph_path.simps) (auto simp: wired_lookup path_TranslateNonPTLanguage)

lemma path_DetectDominantLanguage:
  "graph_path wired ''DetectDominantLanguage'' p \<longleftrightarrow>
     p = [''DetectDominantLanguage'', ''FormatResult'', ''TranslateNonPTLanguage'', ''DetectSentiment''] \<or>
     p = [''DetectDominantLanguage'', ''FormatResult'', ''TranslateNonPTLanguage'', ''TranslateText'',
          ''FormatTranslatedResult'', ''DetectSentiment'']"
  by (subst graph_path.simps) (auto simp: wired_lookup path_FormatResult)

lemma terminal_wired: "terminal_states wired = [''DetectSentiment'']"
  by (simp add: terminal_states_def wired_eq detectLanguage_def formatResult_def
      translateNonPTLanguage_def detectSentiment_def translateText_def formatTranslatedResult_def)

text \<open>
  Claim C8. The graph starts at the language detection; its runs from the start to an
  end are the two sequences LanguageDetection, Projection, Choice, SentimentDetection
  and LanguageDetection, Projection, Choice, Translation, Projection,
  SentimentDetection, and no others; SentimentDetection is the one state with no
  successor.
\<close>

theorem workflow_graph_shape:
  "startAt stateMachine = ''DetectDominantLanguage'' \<and>
   (graph_path (states_of stateMachine) (startAt stateMachine) p \<longleftrightarrow>
      p = [''DetectDominantLanguage'', ''FormatResult'', ''TranslateNonPTLanguage'', ''DetectSentiment''] \<or>
      p = [''DetectDominantLanguage'', ''FormatResult'', ''TranslateNonPTLanguage'', ''TranslateText'',
           ''FormatTranslatedResult'', ''DetectSentiment'']) \<and>
   terminal_states (states_of stateMachine) = [''DetectSentiment'']"
  by (simp add: stateMachine_def path_DetectDominantLanguage terminal_wired)

theorem workflow_graph_shape_witness:
  "graph_path (states_of stateMachine) (startAt stateMachine)
     [''DetectDominantLanguage'', ''FormatResult'', ''TranslateNonPTLanguage'', ''TranslateText'',
      ''FormatTranslatedResult'', ''DetectSentiment''] \<and>
   \<not> graph_path (states_of stateMachine) (startAt stateMachine)
     [''DetectDominantLanguage'', ''FormatResult'', ''TranslateNonPTLanguage'', ''TranslateText'']"
proof -
  have "graph_path (states_of stateMachine) (startAt stateMachine)
     [''DetectDominantLanguage'', ''FormatResult'', ''TranslateNonPTLanguage'', ''TranslateText'',
      ''FormatTranslatedResult'', ''DetectSentiment'']"
    using workflow_graph_shape [of "[''DetectDominantLanguage'', ''FormatResult'',
          ''TranslateNonPTLanguage'', ''TranslateText'', ''FormatTranslatedResult'', ''DetectSentiment'']",
          THEN conjunct2, THEN conjunct1]
    by simp
  moreover have "\<not> graph_path (states_of stateMachine) (startAt stateMachine)
     [''DetectDominantLanguage'', ''FormatResult'', ''TranslateNonPTLanguage'', ''TranslateText'']"
    using workflow_graph_shape [of "[''DetectDominantLanguage'', ''FormatResult'',
          ''TranslateNonPTLanguage'', ''TranslateText'']", THEN conjunct2, THEN conjunct1]
    by simp
  ultimately show ?thesis
    by (rule conjI)
qed

section \<open>Running the workflow\<close>

lemma map_of_set_field:
  "map_of (set_field k v kvs) k' = (if k' = k then Some v else map_of kvs k')"
  by (induction kvs) auto

lemma put_result:
  "put_path [Key k] r d = Inr d' \<longleftrightarrow> (\<exists>kvs. d = JObj kvs \<and> d' = JObj (set_field k r kvs))"
  by (cases d) auto

subsection \<open>Where a state hands on to\<close>

lemma choose_rule_target:
  "choose_rule rules dflt d = Inr n \<Longrightarrow>
     n \<in> set (map snd rules @ (case dflt of None \<Rightarrow> [] | Some b \<Rightarrow> [b]))"
proof (induction rules)
  case Nil
  then show ?case by (cases dflt) simp_all
next
  case (Cons r rules)
  obtain c m where r: "r = (c, m)" by (cases r)
  show ?case
  proof (cases "eval_condition c d")
    case (Inl e)
    with Cons.prems r show ?thesis by simp
  next
    case (Inr b)
    with Cons r show ?thesis by (cases b) auto
  qed
qed

lemma task_next:
  "run_state caps (CallAwsService props nx0) d = Inr (d', nx) \<Longrightarrow> nx = nx0"
  by (simp split: sum.splits option.splits)

lemma run_state_successor:
  assumes "run_state caps s d = Inr (d', Some n')"
  shows "n' \<in> set (successors s)"
proof (cases s)
  case (CallAwsService props nx0)
  from assms [unfolded CallAwsService] have "Some n' = nx0" by (rule task_next)
  with CallAwsService show ?thesis by simp
next
  case (Pass ps nx0)
  with assms show ?thesis by (simp split: sum.splits)
next
  case (Choice rules dflt)
  with assms have "choose_rule rules dflt d = Inr n'" by (simp split: sum.splits)
  from choose_rule_target [OF this] Choice show ?thesis by simp
qed

text \<open>A task that writes its response under \<open>result\<close> and hands on the whole document.\<close>

lemma task_with_result_path:
  assumes rp: "resultPath props = Some [Key ''result'']"
    and outp: "outputPath props = Some []"
    and run: "run_state caps (CallAwsService props nx0) d = Inr (d', nx)"
  shows "\<exists>kvs req resp. d = JObj kvs \<and>
           eval_parameters (parameters props) d = Inr req \<and>
           caps (task_service props) (task_action props) (JObj req) = Inr resp \<and>
           d' = JObj (set_field ''result'' resp kvs) \<and> nx = nx0"
proof (cases "eval_parameters (parameters props) d")
  case (Inl e)
  with run show ?thesis by simp
next
  case (Inr req)
  note req = this
  show ?thesis
  proof (cases "caps (task_service props) (task_action props) (JObj req)")
    case (Inl e)
    with run req show ?thesis by simp
  next
    case (Inr resp)
    note resp = this
    show ?thesis
    proof (cases "put_path [Key ''result''] resp d")
      case (Inl e)
      with run req resp rp show ?thesis by simp
    next
      case (Inr merged)
      with run req resp rp outp have "d' = merged" "nx = nx0" by simp_all
      with Inr req resp show ?thesis by (auto simp: put_result)
    qed
  qed
qed

subsection \<open>The states an execution enters\<close>

lemma trace_Suc:
  "map_of sts n = Some s \<Longrightarrow>
     fst (execute (Suc k) caps sts n d) =
       (n, d) # (case run_state caps s d of
                   Inl e \<Rightarrow> []
                 | Inr (d', None) \<Rightarrow> []
                 | Inr (d', Some n') \<Rightarrow> fst (execute k caps sts n' d'))"
  by (simp split: sum.split option.split prod.split)

lemma outcome_Suc:
  "map_of sts n = Some s \<Longrightarrow>
     snd (execute (Suc k) caps sts n d) =
       (case run_state caps s d of
          Inl e \<Rightarrow> Inl e
        | Inr (d', None) \<Rightarrow> Inr d'
        | Inr (d', Some n') \<Rightarrow> snd (execute k caps sts n' d'))"
  by (simp split: sum.split option.split prod.split)

lemma entered_later:
  assumes st: "map_of sts n = Some s" and ne: "n \<noteq> m"
    and ent: "(m, doc) \<in> set (fst (execute k caps sts n d))"
  shows "\<exists>k' d' n'. k = Suc k' \<and> run_state caps s d = Inr (d', Some n') \<and>
           (m, doc) \<in> set (fst (execute k' caps sts n' d'))"
proof (cases k)
  case 0
  with ent show ?thesis by simp
next
  case (Suc k')
  with ent ne have later: "(m, doc) \<in> set (case run_state caps s d of
                   Inl e \<Rightarrow> []
                 | Inr (d', None) \<Rightarrow> []
                 | Inr (d', Some n') \<Rightarrow> fst (execute k' caps sts n' d'))"
    by (simp add: trace_Suc [OF st] del: execute.simps)
  show ?thesis
  proof (cases "run_state caps s d")
    case (Inl e)
    with later show ?thesis by simp
  next
    case (Inr r)
    obtain d' nx where r: "r = (d', nx)" by (cases r)
    show ?thesis
    proof (cases nx)
      case None
      with later Inr r show ?thesis by simp
    next
      case (Some n')
      with later Inr r Suc show ?thesis by simp
    qed
  qed
qed

lemma entered_end:
  assumes st: "map_of sts n = Some s" and fin: "successors s = []"
    and ent: "(m, doc) \<in> set (fst (execute k caps sts n d))"
  shows "m = n \<and> doc = d"
proof (cases k)
  case 0
  with ent show ?thesis by simp
next
  case (Suc k')
  have "(case run_state caps s d of
                   Inl e \<Rightarrow> []
                 | Inr (d', None) \<Rightarrow> []
                 | Inr (d', Some n') \<Rightarrow> fst (execute k' caps sts n' d')) = []"
    using run_state_successor [of caps s d] fin
    by (auto split: sum.splits option.splits prod.splits)
  with Suc ent show ?thesis
    by (simp add: trace_Suc [OF st] del: execute.simps)
qed

subsection \<open>Six states are enough\<close>

lemma eval_parameters_error:
  "eval_parameters ps d = Inl e \<Longrightarrow> e = ParameterPathFailure"
  by (induction ps d rule: eval_parameters.induct) (auto split: option.splits sum.splits)

lemma put_path_error:
  "put_path p r d = Inl e \<Longrightarrow> e = ResultPathMatchFailure"
  by (induction p r d rule: put_path.induct) (auto split: sum.splits)

lemma eval_condition_error:
  "eval_condition c d = Inl e \<Longrightarrow> e = InvalidChoicePath"
  by (induction c) (auto split: option.splits json.splits sum.splits)

lemma choose_rule_error:
  "choose_rule rules dflt d = Inl e \<Longrightarrow> e = InvalidChoicePath \<or> e = NoChoiceMatched"
  by (induction rules dflt d rule: choose_rule.induct)
     (auto split: option.splits sum.splits if_splits dest: eval_condition_error)

lemma task_error:
  assumes "run_state caps (CallAwsService props nx0) d = Inl e"
  shows "e \<noteq> OutOfFuel"
proof (cases "eval_parameters (parameters props) d")
  case (Inl e')
  with assms eval_parameters_error [OF Inl] show ?thesis by simp
next
  case (Inr req)
  note req = this
  show ?thesis
  proof (cases "caps (task_service props) (task_action props) (JObj req)")
    case (Inl cause)
    with assms req show ?thesis by auto
  next
    case (Inr resp)
    note resp = this
    show ?thesis
    proof (cases "case resultPath props of None \<Rightarrow> Inr resp | Some p \<Rightarrow> put_path p resp d")
      case (Inl e')
      then have "e' = ResultPathMatchFailure"
        by (auto split: option.splits dest: put_path_error)
      with assms req resp Inl show ?thesis by auto
    next
      case (Inr merged)
      with assms req resp show ?thesis
        by (auto split: option.splits)
    qed
  qed
qed

lemma run_state_error:
  assumes "run_state caps s d = Inl e"
  shows "e \<noteq> OutOfFuel"
proof (cases s)
  case (CallAwsService props nx0)
  from assms [unfolded CallAwsService] show ?thesis
    by (rule task_error)
next
  case (Pass ps nx0)
  with assms have "eval_parameters ps d = Inl e"
    by (simp split: sum.splits)
  from eval_parameters_error [OF this] show ?thesis by simp
next
  case (Choice rules dflt)
  with assms have "choose_rule rules dflt d = Inl e"
    by (simp split: sum.splits)
  from choose_rule_error [OF this] show ?thesis by auto
qed

lemma fuel_step:
  assumes st: "map_of sts n = Some s"
    and later: "\<And>n' d'. n' \<in> set (successors s) \<Longrightarrow> snd (execute k caps sts n' d') \<noteq> Inl OutOfFuel"
  shows "snd (execute (Suc k) caps sts n d) \<noteq> Inl OutOfFuel"
proof (cases "run_state caps s d")
  case (Inl e)
  with run_state_error [OF Inl] show ?thesis
    by (simp add: outcome_Suc [OF st] del: execute.simps)
next
  case (Inr r)
  obtain d' nx where r: "r = (d', nx)" by (cases r)
  show ?thesis
  proof (cases nx)
    case None
    with Inr r show ?thesis
      by (simp add: outcome_Suc [OF st] del: execute.simps)
  next
    case (Some n')
    with Inr r have "n' \<in> set (successors s)"
      by (auto dest: run_state_successor)
    from later [OF this, of d'] Inr r Some show ?thesis
      by (simp add: outcome_Suc [OF st] del: execute.simps)
  qed
qed

lemma fuel_DetectSentiment:
  "snd (execute (Suc k) caps wired ''DetectSentiment'' d) \<noteq> Inl OutOfFuel"
  by (rule fuel_step [OF wired_DetectSentiment]) simp

lemma fuel_FormatTranslatedResult:
  "snd (execute (Suc (Suc k)) caps wired ''FormatTranslatedResult'' d) \<noteq> Inl OutOfFuel"
  by (rule fuel_step [OF wired_FormatTranslatedResult]) (simp add: fuel_DetectSentiment del: execute.simps)

lemma fuel_TranslateText:
  "snd (execute (Suc (Suc (Suc k))) caps wired ''TranslateText'' d) \<noteq> Inl OutOfFuel"
  by (rule fuel_step [OF wired_TranslateText]) (simp add: fuel_FormatTranslatedResult del: execute.simps)

lemma fuel_TranslateNonPTLanguage:
  "snd (execute (Suc (Suc (Suc (Suc k)))) caps wired ''TranslateNonPTLanguage'' d) \<noteq> Inl OutOfFuel"
  by (rule fuel_step [OF wired_TranslateNonPTLanguage])
     (auto simp: fuel_DetectSentiment fuel_TranslateText simp del: execute.simps)

lemma fuel_FormatResult:
  "snd (execute (Suc (Suc (Suc (Suc (Suc k))))) caps wired ''FormatResult'' d) \<noteq> Inl OutOfFuel"
  by (rule fuel_step [OF wired_FormatResult]) (simp add: fuel_TranslateNonPTLanguage del: execute.simps)

lemma fuel_DetectDominantLanguage:
  "snd (execute (Suc (Suc (Suc (Suc (Suc (Suc k)))))) caps wired ''DetectDominantLanguage'' d)
     \<noteq> Inl OutOfFuel"
  by (rule fuel_step [OF wired_DetectDominantLanguage]) (simp add: fuel_FormatResult del: execute.simps)

text \<open>
  With room for six states an execution of the machine ends by itself, with the
  result of the sentiment detection or with the failure of a state.
\<close>

lemma execution_ends:
  assumes "6 \<le> k"
  shows "snd (start_execution k caps stateMachine d) \<noteq> Inl OutOfFuel"
proof -
  from assms obtain k' where "k = 6 + k'"
    using le_Suc_ex by blast
  then have "k = Suc (Suc (Suc (Suc (Suc (Suc k')))))"
    by simp
  then show ?thesis
    by (simp add: start_execution_def stateMachine_def fuel_DetectDominantLanguage
          del: execute.simps)
qed

section \<open>The Choice\<close>

lemma stateMachine_choice:
  "map_of (states_of stateMachine) ''TranslateNonPTLanguage'' =
     Some (Choice [(StringEquals [Key ''Language''] ''pt'', ''DetectSentiment''),
                   (NotCond (StringEquals [Key ''Language''] ''pt''), ''TranslateText'')] None)"
  by (simp add: stateMachine_def wired_TranslateNonPTLanguage)

text \<open>
  Claim C4. Whatever the value of the \<open>Language\<close> field of the document is, exactly one
  of the two rules of the Choice holds: the rule \<open>Language\<close> equals \<open>pt\<close> when the value is
  the string \<open>pt\<close>, and its negation otherwise. The Choice hands the document on
  unchanged, to the sentiment detection in the first case and to the translation in
  the second; it never fails for want of a matching rule.
\<close>

theorem translation_decision_exactly_one_rule:
  assumes "map_of (states_of stateMachine) ''TranslateNonPTLanguage'' = Some (Choice rules dflt)"
    and "get_path [Key ''Language''] d = Some v"
  shows "map snd (filter (\<lambda>r. eval_condition (fst r) d = Inr True) rules) =
           [if v = JStr ''pt'' then ''DetectSentiment'' else ''TranslateText''] \<and>
         run_state caps (Choice rules dflt) d =
           Inr (d, Some (if v = JStr ''pt'' then ''DetectSentiment'' else ''TranslateText''))"
proof -
  from assms(1) have rules: "rules = [(StringEquals [Key ''Language''] ''pt'', ''DetectSentiment''),
                   (NotCond (StringEquals [Key ''Language''] ''pt''), ''TranslateText'')]"
    and dflt: "dflt = None"
    by (simp_all add: stateMachine_choice)
  show ?thesis
  proof (cases v)
    case (JStr s)
    with assms(2) show ?thesis unfolding rules dflt by simp
  qed (use assms(2) in \<open>simp_all add: rules dflt\<close>)
qed

theorem translation_decision_exactly_one_rule_witness:
  "run_state sample_capabilities
      (Choice [(StringEquals [Key ''Language''] ''pt'', ''DetectSentiment''),
               (NotCond (StringEquals [Key ''Language''] ''pt''), ''TranslateText'')] None)
      (JObj [(''Text'', JStr ''I love this''), (''Language'', JStr ''en'')]) =
     Inr (JObj [(''Text'', JStr ''I love this''), (''Language'', JStr ''en'')], Some ''TranslateText'') \<and>
   run_state sample_capabilities
      (Choice [(StringEquals [Key ''Language''] ''pt'', ''DetectSentiment''),
               (NotCond (StringEquals [Key ''Language''] ''pt''), ''TranslateText'')] None)
      (JObj [(''Text'', JStr ''Eu amo isso''), (''Language'', JStr ''pt'')]) =
     Inr (JObj [(''Text'', JStr ''Eu amo isso''), (''Language'', JStr ''pt'')], Some ''DetectSentiment'')"
proof -
  have en: "get_path [Key ''Language'']
              (JObj [(''Text'', JStr ''I love this''), (''Language'', JStr ''en'')]) = Some (JStr ''en'')"
    by simp
  have pt: "get_path [Key ''Language'']
              (JObj [(''Text'', JStr ''Eu amo isso''), (''Language'', JStr ''pt'')]) = Some (JStr ''pt'')"
    by simp
  from translation_decision_exactly_one_rule [OF stateMachine_choice en, of sample_capabilities]
       translation_decision_exactly_one_rule [OF stateMachine_choice pt, of sample_capabilities]
  show ?thesis by simp
qed

section \<open>The tasks keep the document\<close>

text \<open>
  Claim C10. The language detection and the translation both write the response of
  their capability under \<open>result\<close> and hand the whole document on: every other field of
  the input document, \<open>txt\<close> among them, has the value it had, and \<open>result\<close> holds the
  response. A field \<open>result\<close> that the input already has is the one field replaced.
\<close>

theorem task_keeps_input_fields:
  assumes st: "map_of (states_of stateMachine) n = Some (CallAwsService props nx0)"
    and n: "n = ''DetectDominantLanguage'' \<or> n = ''TranslateText''"
    and run: "run_state caps (CallAwsService props nx0) d = Inr (d', nx)"
  shows "resultPath props = Some [Key ''result''] \<and> outputPath props = Some [] \<and>
         (\<forall>k. k \<noteq> ''result'' \<longrightarrow> get_path [Key k] d' = get_path [Key k] d) \<and>
         get_path [Key ''txt''] d' = get_path [Key ''txt''] d \<and>
         (\<exists>req resp. caps (task_service props) (task_action props) req = Inr resp \<and>
                      get_path [Key ''result''] d' = Some resp)"
proof -
  from st n have rp: "resultPath props = Some [Key ''result'']" and outp: "outputPath props = Some []"
    by (auto simp: stateMachine_def wired_lookup)
  from task_with_result_path [OF rp outp run] obtain kvs req resp where
    d: "d = JObj kvs" and call: "caps (task_service props) (task_action props) (JObj req) = Inr resp"
    and d': "d' = JObj (set_field ''result'' resp kvs)"
    by blast
  have frame: "\<forall>k. k \<noteq> ''result'' \<longrightarrow> get_path [Key k] d' = get_path [Key k] d"
    by (simp add: d d' map_of_set_field)
  have res: "get_path [Key ''result''] d' = Some resp"
    by (simp add: d' map_of_set_field)
  from frame have text_field: "get_path [Key ''txt''] d' = get_path [Key ''txt''] d"
    by simp
  from rp outp frame text_field call res show ?thesis
    by blast
qed

theorem task_keeps_input_fields_witness:
  "run_state sample_capabilities
      (CallAwsService
         \<lparr> task_service = ''comprehend'', task_action = ''detectDominantLanguage'',
           parameters = [(''Text'', At [Key ''txt''])],
           resultPath = Some [Key ''result''], outputPath = Some [] \<rparr> (Some ''FormatResult''))
      (JObj [(''txt'', JStr ''I love this''), (''user'', JStr ''ana'')]) =
     Inr (JObj [(''txt'', JStr ''I love this''), (''user'', JStr ''ana''),
                (''result'', languages_reply [(''en'', 99 / 100), (''pt'', 1 / 200)])],
          Some ''FormatResult'') \<and>
   get_path [Key ''txt'']
     (JObj [(''txt'', JStr ''I love this''), (''user'', JStr ''ana''),
            (''result'', languages_reply [(''en'', 99 / 100), (''pt'', 1 / 200)])]) =
     get_path [Key ''txt''] (JObj [(''txt'', JStr ''I love this''), (''user'', JStr ''ana'')])"
proof -
  have st: "map_of (states_of stateMachine) ''DetectDominantLanguage'' =
     Some (CallAwsService
       \<lparr> task_service = ''comprehend'', task_action = ''detectDominantLanguage'',
         parameters = [(''Text'', At [Key ''txt''])],
         resultPath = Some [Key ''result''], outputPath = Some [] \<rparr> (Some ''FormatResult''))"
    by (simp add: stateMachine_def wired_DetectDominantLanguage)
  have run: "run_state sample_capabilities
      (CallAwsService
         \<lparr> task_service = ''comprehend'', task_action = ''detectDominantLanguage'',
           parameters = [(''Text'', At [Key ''txt''])],
           resultPath = Some [Key ''result''], outputPath = Some [] \<rparr> (Some ''FormatResult''))
      (JObj [(''txt'', JStr ''I love this''), (''user'', JStr ''ana'')]) =
     Inr (JObj [(''txt'', JStr ''I love this''), (''user'', JStr ''ana''),
                (''result'', languages_reply [(''en'', 99 / 100), (''pt'', 1 / 200)])],
          Some ''FormatResult'')"
    by (simp add: sample_capabilities_def)
  from task_keeps_input_fields [OF st _ run] have
    "get_path [Key ''txt'']
       (JObj [(''txt'', JStr ''I love this''), (''user'', JStr ''ana''),
              (''result'', languages_reply [(''en'', 99 / 100), (''pt'', 1 / 200)])]) =
     get_path [Key ''txt''] (JObj [(''txt'', JStr ''I love this''), (''user'', JStr ''ana'')])"
    by blast
  with run show ?thesis
    by (rule conjI)
qed

section \<open>The Projections\<close>

lemma first_is_maximal:
  assumes "sorted_wrt (\<lambda>a b. snd b \<le> snd a) (l # ls)"
  shows "snd l = Max (snd ` set (l # ls))"
proof -
  from assms have "\<forall>x \<in> set ls. snd x \<le> snd l" by simp
  then have "Max (snd ` set (l # ls)) = snd l"
    by (intro Max_eqI) auto
  then show ?thesis by simp
qed

lemma run_DetectDominantLanguage:
  assumes "map_of kvs ''txt'' = Some t"
    and "caps ''comprehend'' ''detectDominantLanguage'' (JObj [(''Text'', t)]) = Inr resp"
  shows "run_state caps (CallAwsService
       \<lparr> task_service = ''comprehend'', task_action = ''detectDominantLanguage'',
         parameters = [(''Text'', At [Key ''txt''])],
         resultPath = Some [Key ''result''], outputPath = Some [] \<rparr> (Some ''FormatResult'')) (JObj kvs)
      = Inr (JObj (set_field ''result'' resp kvs), Some ''FormatResult'')"
  using assms by simp

lemma run_FormatResult:
  assumes "map_of kvs ''txt'' = Some t"
  shows "run_state caps (Pass [(''Text'', At [Key ''txt'']),
                 (''Language'', At [Key ''result'', Key ''Languages'', Idx 0, Key ''LanguageCode''])]
                (Some ''TranslateNonPTLanguage''))
           (JObj (set_field ''result'' (languages_reply (l # ls)) kvs))
      = Inr (JObj [(''Text'', t), (''Language'', JStr (fst l))], Some ''TranslateNonPTLanguage'')"
  using assms by (simp add: map_of_set_field languages_reply_def language_entry_def)

text \<open>
  Claim C5. When the language detector answers with a list that is not empty and is
  sorted by score, highest first, the execution enters the Projection with the reply
  under \<open>result\<close>, and the Choice with the document the Projection builds: \<open>Text\<close> is the
  \<open>txt\<close> of the input and \<open>Language\<close> is the code of the first entry, whose score is the
  maximum of the scores in the list.
\<close>

theorem projection_selects_top_language:
  assumes reply: "caps ''comprehend'' ''detectDominantLanguage'' (JObj [(''Text'', t)]) =
                    Inr (languages_reply (l # ls))"
    and sorted: "sorted_wrt (\<lambda>a b. snd b \<le> snd a) (l # ls)"
    and txt_field: "map_of kvs ''txt'' = Some t"
    and k: "3 \<le> k"
  shows "take 3 (fst (start_execution k caps stateMachine (JObj kvs))) =
           [(''DetectDominantLanguage'', JObj kvs),
            (''FormatResult'', JObj (set_field ''result'' (languages_reply (l # ls)) kvs)),
            (''TranslateNonPTLanguage'', JObj [(''Text'', t), (''Language'', JStr (fst l))])] \<and>
         snd l = Max (snd ` set (l # ls))"
proof -
  from k obtain k' where "k = 3 + k'"
    using le_Suc_ex by blast
  then have k': "k = Suc (Suc (Suc k'))"
    by simp
  have run1: "run_state caps (CallAwsService
       \<lparr> task_service = ''comprehend'', task_action = ''detectDominantLanguage'',
         parameters = [(''Text'', At [Key ''txt''])],
         resultPath = Some [Key ''result''], outputPath = Some [] \<rparr> (Some ''FormatResult'')) (JObj kvs)
      = Inr (JObj (set_field ''result'' (languages_reply (l # ls)) kvs), Some ''FormatResult'')"
    using txt_field reply by (rule run_DetectDominantLanguage)
  have "fst (execute (Suc (Suc (Suc k'))) caps wired ''DetectDominantLanguage'' (JObj kvs)) =
      (''DetectDominantLanguage'', JObj kvs) #
      (''FormatResult'', JObj (set_field ''result'' (languages_reply (l # ls)) kvs)) #
      (''TranslateNonPTLanguage'', JObj [(''Text'', t), (''Language'', JStr (fst l))]) #
      (case run_state caps (Choice [(StringEquals [Key ''Language''] ''pt'', ''DetectSentiment''),
                   (NotCond (StringEquals [Key ''Language''] ''pt''), ''TranslateText'')] None)
              (JObj [(''Text'', t), (''Language'', JStr (fst l))]) of
                   Inl e \<Rightarrow> []
                 | Inr (d', None) \<Rightarrow> []
                 | Inr (d', Some n') \<Rightarrow> fst (execute k' caps wired n' d'))"
    by (simp only: trace_Suc [OF wired_DetectDominantLanguage] trace_Suc [OF wired_FormatResult]
          trace_Suc [OF wired_TranslateNonPTLanguage]
          run1 run_FormatResult [OF txt_field]
          sum.case prod.case option.case)
  then have "take 3 (fst (start_execution k caps stateMachine (JObj kvs))) =
           [(''DetectDominantLanguage'', JObj kvs),
            (''FormatResult'', JObj (set_field ''result'' (languages_reply (l # ls)) kvs)),
            (''TranslateNonPTLanguage'', JObj [(''Text'', t), (''Language'', JStr (fst l))])]"
    by (simp add: start_execution_def stateMachine_def k' del: execute.simps run_state.simps)
  with first_is_maximal [OF sorted] show ?thesis by simp
qed

theorem projection_selects_top_language_witness:
  "take 3 (fst (start_execution 6 sample_capabilities stateMachine
                  (JObj [(''txt'', JStr ''I love this'')]))) =
     [(''DetectDominantLanguage'', JObj [(''txt'', JStr ''I love this'')]),
      (''FormatResult'',
         JObj [(''txt'', JStr ''I love this''),
               (''result'', languages_reply [(''en'', 99 / 100), (''pt'', 1 / 200)])]),
      (''TranslateNonPTLanguage'',
         JObj [(''Text'', JStr ''I love this''), (''Language'', JStr ''en'')])] \<and>
   (99 / 100 :: rat) = Max (snd ` set [(''en'', 99 / 100), (''pt'', 1 / 200)])"
proof -
  have reply: "sample_capabilities ''comprehend'' ''detectDominantLanguage''
                 (JObj [(''Text'', JStr ''I love this'')]) =
               Inr (languages_reply ((''en'', 99 / 100) # [(''pt'', 1 / 200)]))"
    by (simp add: sample_capabilities_def)
  have sorted: "sorted_wrt (\<lambda>a b. snd b \<le> snd a) ((''en'', 99 / 100 :: rat) # [(''pt'', 1 / 200)])"
    by simp
  have txt_field: "map_of [(''txt'', JStr ''I love this'')] ''txt'' = Some (JStr ''I love this'')"
    by simp
  have k: "(3::nat) \<le> 6"
    by simp
  from projection_selects_top_language
         [where caps = sample_capabilities and t = "JStr ''I love this''"
            and l = "(''en'', 99 / 100)" and ls = "[(''pt'', 1 / 200)]"
            and kvs = "[(''txt'', JStr ''I love this'')]" and k = 6,
          OF reply sorted txt_field k]
  show ?thesis by simp
qed

text \<open>
  Claim C6, as stated, says that applying the parameter mapping of a Projection twice
  gives what applying it once gives. It does not: FormatResult maps a document with
  \<open>txt\<close> and the detector's reply to \<open>{Text, Language}\<close>, and applied to that result it
  fails, because the result has no \<open>txt\<close>.
\<close>

theorem projection_twice_counterexample:
  "pass_once formatResult
      (JObj [(''txt'', JStr ''I love this''), (''result'', languages_reply [(''en'', 99 / 100)])]) =
     Inr (JObj [(''Text'', JStr ''I love this''), (''Language'', JStr ''en'')]) \<and>
   pass_twice formatResult
      (JObj [(''txt'', JStr ''I love this''), (''result'', languages_reply [(''en'', 99 / 100)])]) =
     Inl ParameterPathFailure \<and>
   pass_twice formatResult
      (JObj [(''txt'', JStr ''I love this''), (''result'', languages_reply [(''en'', 99 / 100)])]) \<noteq>
   pass_once formatResult
      (JObj [(''txt'', JStr ''I love this''), (''result'', languages_reply [(''en'', 99 / 100)])])"
  by (simp add: pass_once_def pass_twice_def formatResult_def languages_reply_def language_entry_def)

lemma pass_once_shape:
  assumes "s = formatResult \<or> s = formatTranslatedResult"
    and "pass_once s d = Inr d'"
  shows "\<exists>a b. d' = JObj [(''Text'', a), (''Language'', b)]"
  using assms
  by (auto simp: pass_once_def formatResult_def formatTranslatedResult_def
           split: option.splits sum.splits)

lemma pass_once_on_output:
  assumes "s = formatResult \<or> s = formatTranslatedResult"
  shows "pass_once s (JObj [(''Text'', a), (''Language'', b)]) = Inl ParameterPathFailure"
  using assms
  by (auto simp: pass_once_def formatResult_def formatTranslatedResult_def)

text \<open>
  Claim C6, amended. For FormatResult and FormatTranslatedResult: whenever one
  application of the mapping succeeds, the second application, to its result
  \<open>{Text, Language}\<close>, fails on a path that selects nothing; when the first
  application fails, so does the pair, with the same failure. So twice equals once
  exactly on the documents on which the mapping fails.
\<close>

theorem projection_twice_fails:
  assumes s: "s = formatResult \<or> s = formatTranslatedResult"
  shows "(pass_once s d = Inr d' \<longrightarrow> pass_twice s d = Inl ParameterPathFailure) \<and>
         (pass_once s d = Inl e \<longrightarrow> pass_twice s d = Inl e) \<and>
         (pass_twice s d = pass_once s d \<longleftrightarrow> (\<exists>e. pass_once s d = Inl e))"
proof (cases "pass_once s d")
  case (Inl e')
  then show ?thesis by (simp add: pass_twice_def)
next
  case (Inr r)
  from pass_once_shape [OF s Inr] obtain a b where "r = JObj [(''Text'', a), (''Language'', b)]"
    by blast
  with Inr pass_once_on_output [OF s, of a b] have "pass_twice s d = Inl ParameterPathFailure"
    by (simp add: pass_twice_def)
  with Inr show ?thesis
    by simp
qed

theorem projection_twice_fails_witness:
  "pass_once formatTranslatedResult
      (JObj [(''Text'', JStr ''I love this''), (''Language'', JStr ''en''),
             (''result'', JObj [(''TranslatedText'', JStr ''Eu amo isso''),
                                (''TargetLanguageCode'', JStr ''pt'')])]) =
     Inr (JObj [(''Text'', JStr ''Eu amo isso''), (''Language'', JStr ''pt'')]) \<and>
   pass_twice formatTranslatedResult
      (JObj [(''Text'', JStr ''I love this''), (''Language'', JStr ''en''),
             (''result'', JObj [(''TranslatedText'', JStr ''Eu amo isso''),
                                (''TargetLanguageCode'', JStr ''pt'')])]) =
     Inl ParameterPathFailure"
proof -
  have once: "pass_once formatTranslatedResult
      (JObj [(''Text'', JStr ''I love this''), (''Language'', JStr ''en''),
             (''result'', JObj [(''TranslatedText'', JStr ''Eu amo isso''),
                                (''TargetLanguageCode'', JStr ''pt'')])]) =
     Inr (JObj [(''Text'', JStr ''Eu amo isso''), (''Language'', JStr ''pt'')])"
    by (simp add: pass_once_def formatTranslatedResult_def)
  have s: "formatTranslatedResult = formatResult \<or> formatTranslatedResult = formatTranslatedResult"
    by simp
  from projection_twice_fails [OF s, THEN conjunct1, rule_format, OF once] once
  show ?thesis by simp
qed

section \<open>The language of the document that reaches the sentiment detection\<close>

lemma enter_from_DetectSentiment:
  "(''DetectSentiment'', doc) \<in> set (fst (execute k caps wired ''DetectSentiment'' d)) \<Longrightarrow> doc = d"
  using entered_end [OF wired_DetectSentiment] by simp

lemma run_FormatTranslatedResult:
  "run_state caps (Pass [(''Text'', At [Key ''result'', Key ''TranslatedText'']),
                 (''Language'', At [Key ''result'', Key ''TargetLanguageCode''])] nx0) d = Inr (d', nx)
   \<Longrightarrow> \<exists>a b. get_path [Key ''result'', Key ''TranslatedText''] d = Some a \<and>
             get_path [Key ''result'', Key ''TargetLanguageCode''] d = Some b \<and>
             d' = JObj [(''Text'', a), (''Language'', b)] \<and> nx = nx0"
  by (simp split: option.splits)

lemma enter_from_FormatTranslatedResult:
  assumes "(''DetectSentiment'', doc) \<in> set (fst (execute k caps wired ''FormatTranslatedResult'' d))"
  shows "\<exists>b. get_path [Key ''result'', Key ''TargetLanguageCode''] d = Some b \<and>
             get_path [Key ''Language''] doc = Some b"
proof -
  from entered_later [OF wired_FormatTranslatedResult _ assms]
  obtain k' d' n' where run: "run_state caps (Pass [(''Text'', At [Key ''result'', Key ''TranslatedText'']),
                 (''Language'', At [Key ''result'', Key ''TargetLanguageCode''])]
                (Some ''DetectSentiment'')) d = Inr (d', Some n')"
    and ent: "(''DetectSentiment'', doc) \<in> set (fst (execute k' caps wired n' d'))"
    by auto
  from run_FormatTranslatedResult [OF run] obtain a b where
    b: "get_path [Key ''result'', Key ''TargetLanguageCode''] d = Some b"
    and d': "d' = JObj [(''Text'', a), (''Language'', b)]" and n': "n' = ''DetectSentiment''"
    by auto
  from ent n' have "doc = d'" by (auto dest: enter_from_DetectSentiment)
  with b d' show ?thesis by simp
qed

lemma translate_request:
  "eval_parameters [(''Text'', At [Key ''Text'']),
                    (''SourceLanguageCode'', At [Key ''Language'']),
                    (''TargetLanguageCode'', Lit (JStr ''pt''))] d = Inr req \<Longrightarrow>
   map_of req ''TargetLanguageCode'' = Some (JStr ''pt'')"
  by (auto split: option.splits)

lemma enter_from_TranslateText:
  assumes contract: "translate_contract caps"
    and ent: "(''DetectSentiment'', doc) \<in> set (fst (execute k caps wired ''TranslateText'' d))"
  shows "get_path [Key ''Language''] doc = Some (JStr ''pt'')"
proof -
  let ?props = "\<lparr> task_service = ''translate'', task_action = ''translateText'',
         parameters = [(''Text'', At [Key ''Text'']),
                       (''SourceLanguageCode'', At [Key ''Language'']),
                       (''TargetLanguageCode'', Lit (JStr ''pt''))],
         resultPath = Some [Key ''result''], outputPath = Some [] \<rparr>"
  from entered_later [OF wired_TranslateText _ ent]
  obtain k' d' n' where
    run: "run_state caps (CallAwsService ?props (Some ''FormatTranslatedResult'')) d = Inr (d', Some n')"
    and ent': "(''DetectSentiment'', doc) \<in> set (fst (execute k' caps wired n' d'))"
    by auto
  from task_with_result_path [OF _ _ run] obtain kvs req resp where
    req: "eval_parameters (parameters ?props) d = Inr req"
    and call: "caps ''translate'' ''translateText'' (JObj req) = Inr resp"
    and d': "d' = JObj (set_field ''result'' resp kvs)"
    and n': "n' = ''FormatTranslatedResult''"
    by auto
  from ent' n' enter_from_FormatTranslatedResult [of doc k' caps d'] obtain b where
    b: "get_path [Key ''result'', Key ''TargetLanguageCode''] d' = Some b"
    and lang: "get_path [Key ''Language''] doc = Some b"
    by auto
  from b d' have "get_path [Key ''TargetLanguageCode''] resp = Some b"
    by (simp add: map_of_set_field)
  with contract call have "get_path [Key ''TargetLanguageCode''] (JObj req) = Some b"
    unfolding translate_contract_def by blast
  moreover from req have "map_of req ''TargetLanguageCode'' = Some (JStr ''pt'')"
    by (simp only: CallAwsServiceProps.simps translate_request)
  ultimately have "b = JStr ''pt''" by simp
  with lang show ?thesis by simp
qed

lemma choice_result:
  "run_state caps (Choice [(StringEquals [Key ''Language''] ''pt'', ''DetectSentiment''),
                   (NotCond (StringEquals [Key ''Language''] ''pt''), ''TranslateText'')] None) d
     = Inr (d', Some n') \<Longrightarrow>
   d' = d \<and> (n' = ''DetectSentiment'' \<and> get_path [Key ''Language''] d = Some (JStr ''pt'') \<or>
              n' = ''TranslateText'')"
  by (auto split: option.splits json.splits if_splits)

lemma enter_from_TranslateNonPTLanguage:
  assumes contract: "translate_contract caps"
    and ent: "(''DetectSentiment'', doc) \<in> set (fst (execute k caps wired ''TranslateNonPTLanguage'' d))"
  shows "get_path [Key ''Language''] doc = Some (JStr ''pt'')"
proof -
  from entered_later [OF wired_TranslateNonPTLanguage _ ent]
  obtain k' d' n' where
    run: "run_state caps (Choice [(StringEquals [Key ''Language''] ''pt'', ''DetectSentiment''),
                   (NotCond (StringEquals [Key ''Language''] ''pt''), ''TranslateText'')] None) d
            = Inr (d', Some n')"
    and ent': "(''DetectSentiment'', doc) \<in> set (fst (execute k' caps wired n' d'))"
    by auto
  from choice_result [OF run] have d': "d' = d"
    and n': "n' = ''DetectSentiment'' \<and> get_path [Key ''Language''] d = Some (JStr ''pt'') \<or>
              n' = ''TranslateText''"
    by simp_all
  from n' show ?thesis
  proof
    assume direct: "n' = ''DetectSentiment'' \<and> get_path [Key ''Language''] d = Some (JStr ''pt'')"
    with ent' d' have "doc = d" by (auto dest: enter_from_DetectSentiment)
    with direct show ?thesis by simp
  next
    assume "n' = ''TranslateText''"
    with ent' contract show ?thesis by (auto dest: enter_from_TranslateText)
  qed
qed

lemma enter_from_FormatResult:
  assumes contract: "translate_contract caps"
    and ent: "(''DetectSentiment'', doc) \<in> set (fst (execute k caps wired ''FormatResult'' d))"
  shows "get_path [Key ''Language''] doc = Some (JStr ''pt'')"
proof -
  from entered_later [OF wired_FormatResult _ ent]
  obtain k' d' n' where
    run: "run_state caps (Pass [(''Text'', At [Key ''txt'']),
                 (''Language'', At [Key ''result'', Key ''Languages'', Idx 0, Key ''LanguageCode''])]
                (Some ''TranslateNonPTLanguage'')) d = Inr (d', Some n')"
    and ent': "(''DetectSentiment'', doc) \<in> set (fst (execute k' caps wired n' d'))"
    by auto
  from run have "n' = ''TranslateNonPTLanguage''"
    by (simp split: sum.splits)
  with ent' contract show ?thesis by (auto dest: enter_from_TranslateNonPTLanguage)
qed

lemma enter_from_DetectDominantLanguage:
  assumes contract: "translate_contract caps"
    and ent: "(''DetectSentiment'', doc) \<in> set (fst (execute k caps wired ''DetectDominantLanguage'' d))"
  shows "get_path [Key ''Language''] doc = Some (JStr ''pt'')"
proof -
  from entered_later [OF wired_DetectDominantLanguage _ ent]
  obtain k' d' n' where
    run: "run_state caps (CallAwsService
       \<lparr> task_service = ''comprehend'', task_action = ''detectDominantLanguage'',
         parameters = [(''Text'', At [Key ''txt''])],
         resultPath = Some [Key ''result''], outputPath = Some [] \<rparr> (Some ''FormatResult'')) d
        = Inr (d', Some n')"
    and ent': "(''DetectSentiment'', doc) \<in> set (fst (execute k' caps wired n' d'))"
    by auto
  from task_next [OF run] have "n' = ''FormatResult''" by simp
  with ent' contract show ?thesis by (auto dest: enter_from_FormatResult)
qed

text \<open>The sample capabilities keep the contract, and the two scenarios run as follows.\<close>

lemma sample_keeps_contract: "translate_contract sample_capabilities"
  unfolding translate_contract_def sample_capabilities_def
  by (auto split: option.splits)

lemma scenario_B_trace:
  "fst (start_execution 6 sample_capabilities stateMachine (JObj [(''txt'', JStr ''I love this'')])) =
     [(''DetectDominantLanguage'', JObj [(''txt'', JStr ''I love this'')]),
      (''FormatResult'',
         JObj [(''txt'', JStr ''I love this''),
               (''result'', languages_reply [(''en'', 99 / 100), (''pt'', 1 / 200)])]),
      (''TranslateNonPTLanguage'', JObj [(''Text'', JStr ''I love this''), (''Language'', JStr ''en'')]),
      (''TranslateText'', JObj [(''Text'', JStr ''I love this''), (''Language'', JStr ''en'')]),
      (''FormatTranslatedResult'',
         JObj [(''Text'', JStr ''I love this''), (''Language'', JStr ''en''),
               (''result'', JObj [(''TranslatedText'', JStr ''Eu amo isso''),
                                  (''TargetLanguageCode'', JStr ''pt'')])]),
      (''DetectSentiment'', JObj [(''Text'', JStr ''Eu amo isso''), (''Language'', JStr ''pt'')])]"
  by (simp add: start_execution_def stateMachine_def eval_nat_numeral wired_lookup
        sample_capabilities_def languages_reply_def language_entry_def)

lemma scenario_A_trace:
  "fst (start_execution 6 sample_capabilities stateMachine (JObj [(''txt'', JStr ''Eu amo isso'')])) =
     [(''DetectDominantLanguage'', JObj [(''txt'', JStr ''Eu amo isso'')]),
      (''FormatResult'',
         JObj [(''txt'', JStr ''Eu amo isso''),
               (''result'', languages_reply [(''pt'', 98 / 100), (''es'', 1 / 100)])]),
      (''TranslateNonPTLanguage'', JObj [(''Text'', JStr ''Eu amo isso''), (''Language'', JStr ''pt'')]),
      (''DetectSentiment'', JObj [(''Text'', JStr ''Eu amo isso''), (''Language'', JStr ''pt'')])]"
  by (simp add: start_execution_def stateMachine_def eval_nat_numeral wired_lookup
        sample_capabilities_def languages_reply_def language_entry_def)

text \<open>
  Claim C3. Every document with which an execution enters the sentiment detection has
  \<open>pt\<close> in its \<open>Language\<close> field, on the direct branch of the Choice as after the
  translation and its Projection. On the second path the field is the
  \<open>TargetLanguageCode\<close> of the translator's reply, so the statement rests on the
  contract of that capability: its reply names the target language it was asked for,
  which the task fixes to \<open>pt\<close>.
\<close>

theorem sentiment_input_language_is_pt:
  assumes "translate_contract caps"
    and "(''DetectSentiment'', doc) \<in> set (fst (start_execution k caps stateMachine d))"
  shows "get_path [Key ''Language''] doc = Some (JStr ''pt'')"
  using assms
  by (simp add: start_execution_def stateMachine_def enter_from_DetectDominantLanguage)

theorem sentiment_input_language_is_pt_witness:
  "translate_contract sample_capabilities \<and>
   (''DetectSentiment'', JObj [(''Text'', JStr ''Eu amo isso''), (''Language'', JStr ''pt'')])
     \<in> set (fst (start_execution 6 sample_capabilities stateMachine
                   (JObj [(''txt'', JStr ''I love this'')]))) \<and>
   (''DetectSentiment'', JObj [(''Text'', JStr ''Eu amo isso''), (''Language'', JStr ''pt'')])
     \<in> set (fst (start_execution 6 sample_capabilities stateMachine
                   (JObj [(''txt'', JStr ''Eu amo isso'')]))) \<and>
   get_path [Key ''Language''] (JObj [(''Text'', JStr ''Eu amo isso''), (''Language'', JStr ''pt'')]) =
     Some (JStr ''pt'')"
proof -
  have translated: "(''DetectSentiment'', JObj [(''Text'', JStr ''Eu amo isso''), (''Language'', JStr ''pt'')])
     \<in> set (fst (start_execution 6 sample_capabilities stateMachine
                   (JObj [(''txt'', JStr ''I love this'')])))"
    by (simp only: scenario_B_trace) simp
  have direct: "(''DetectSentiment'', JObj [(''Text'', JStr ''Eu amo isso''), (''Language'', JStr ''pt'')])
     \<in> set (fst (start_execution 6 sample_capabilities stateMachine
                   (JObj [(''txt'', JStr ''Eu amo isso'')])))"
    by (simp only: scenario_A_trace) simp
  from sentiment_input_language_is_pt [OF sample_keeps_contract translated]
       sentiment_input_language_is_pt [OF sample_keeps_contract direct]
       sample_keeps_contract translated direct
  show ?thesis by blast
qed

text \<open>
  The contract is what carries the second path: the stack copies the language from
  the translator's reply and does not set it. With a translator that names another
  target language, the document that reaches the sentiment detection has that
  language.
\<close>

lemma language_follows_translator_reply:
  "\<not> translate_contract stray_capabilities \<and>
   (''DetectSentiment'', JObj [(''Text'', JStr ''I love this''), (''Language'', JStr ''en'')])
     \<in> set (fst (start_execution 6 stray_capabilities stateMachine
                   (JObj [(''txt'', JStr ''I love this'')])))"
proof
  have "stray_capabilities ''translate'' ''translateText''
          (JObj [(''TargetLanguageCode'', JStr ''pt'')]) =
        Inr (JObj [(''TranslatedText'', JStr ''I love this''), (''TargetLanguageCode'', JStr ''en'')])"
    by (simp add: stray_capabilities_def)
  moreover have "get_path [Key ''TargetLanguageCode'']
          (JObj [(''TranslatedText'', JStr ''I love this''), (''TargetLanguageCode'', JStr ''en'')]) =
        Some (JStr ''en'')"
    by simp
  moreover have "get_path [Key ''TargetLanguageCode''] (JObj [(''TargetLanguageCode'', JStr ''pt'')]) \<noteq>
        Some (JStr ''en'')"
    by simp
  ultimately show "\<not> translate_contract stray_capabilities"
    unfolding translate_contract_def by blast
next
  show "(''DetectSentiment'', JObj [(''Text'', JStr ''I love this''), (''Language'', JStr ''en'')])
     \<in> set (fst (start_execution 6 stray_capabilities stateMachine
                   (JObj [(''txt'', JStr ''I love this'')])))"
    by (simp add: start_execution_def stateMachine_def eval_nat_numeral wired_lookup
          stray_capabilities_def sample_capabilities_def languages_reply_def language_entry_def)
qed

end
